theory Spec2Isabelle
  imports Complex_Main "HOL-Library.Word" "HOL-Library.Monad_Syntax" "HOL-Library.Multiset"
begin

section \<open>Synchronized lyrics player: LRC parser, cue tracker, player state, socket handler\<close>

text \<open>
  A shallow embedding of \<^verbatim>\<open>src/main.js\<close>: the class \<^verbatim>\<open>LRCParser\<close>, the
  state-changing methods of \<^verbatim>\<open>LyricsPlayerApp\<close> and the function
  \<^verbatim>\<open>handleSocketMessage\<close>.

  Conventions of the model:
  \<^item> a JavaScript string is the list of its UTF-16 code units (\<open>16 word\<close>); the
    regular expressions of the source carry no \<^verbatim>\<open>u\<close> flag, so they work on code
    units as well;
  \<^item> a JavaScript number that holds a time, a volume or a position is a \<open>real\<close>:
    the rounding of IEEE doubles is not modelled; integers (indices, parsed
    digit groups) are \<open>int\<close> and \<open>nat\<close>;
  \<^item> a method \<^verbatim>\<open>_name\<close> of the source is the constant \<open>name\<close> here, since an
    identifier cannot start with an underscore.
\<close>

subsection \<open>Strings\<close>

type_synonym jschar = "16 word"
type_synonym jsstring = "jschar list"

text \<open>The code units of an ASCII literal.\<close>

definition js :: "string \<Rightarrow> jsstring" where
  "js s = map (\<lambda>c. of_nat (of_char c)) s"

text \<open>\<^verbatim>\<open>\d\<close>: the ten ASCII digits.\<close>

definition isDigit :: "jschar \<Rightarrow> bool" where
  "isDigit c \<longleftrightarrow> 0x30 \<le> c \<and> c \<le> 0x39"

text \<open>\<^verbatim>\<open>\w\<close>: ASCII letters, digits and the underscore.\<close>

definition isWordChar :: "jschar \<Rightarrow> bool" where
  "isWordChar c \<longleftrightarrow>
     (0x41 \<le> c \<and> c \<le> 0x5A) \<or> (0x61 \<le> c \<and> c \<le> 0x7A) \<or> isDigit c \<or> c = 0x5F"

text \<open>
  The line terminators of ECMAScript: LF, CR, LS, PS. The dot of a regular
  expression without the \<^verbatim>\<open>s\<close> flag matches every code unit but these.
\<close>

definition isLineTerminator :: "jschar \<Rightarrow> bool" where
  "isLineTerminator c \<longleftrightarrow> c = 0x0A \<or> c = 0x0D \<or> c = 0x2028 \<or> c = 0x2029"

text \<open>
  What \<^verbatim>\<open>String.prototype.trim\<close> strips: the white space code points (TAB, VT, FF,
  SP, NBSP, ZWNBSP and the category Zs) and the line terminators.
\<close>

definition isWhiteSpace :: "jschar \<Rightarrow> bool" where
  "isWhiteSpace c \<longleftrightarrow>
     c = 0x09 \<or> c = 0x0B \<or> c = 0x0C \<or> c = 0x20 \<or> c = 0xA0 \<or> c = 0xFEFF \<or>
     c = 0x1680 \<or> (0x2000 \<le> c \<and> c \<le> 0x200A) \<or> c = 0x202F \<or> c = 0x205F \<or>
     c = 0x3000 \<or> isLineTerminator c"

definition trim :: "jsstring \<Rightarrow> jsstring" where
  "trim s = rev (dropWhile isWhiteSpace (rev (dropWhile isWhiteSpace s)))"

text \<open>\<^verbatim>\<open>s.padEnd(n, c)\<close> for a one-unit filler \<open>c\<close>.\<close>

definition padEnd :: "nat \<Rightarrow> jschar \<Rightarrow> jsstring \<Rightarrow> jsstring" where
  "padEnd n c s = s @ replicate (n - length s) c"

text \<open>
  \<^verbatim>\<open>parseInt\<close> on the strings the parser passes to it, which consist of decimal
  digits only: the number they denote in base ten.
\<close>

definition digitVal :: "jschar \<Rightarrow> nat" where
  "digitVal c = unat c - 48"

definition parseInt :: "jsstring \<Rightarrow> nat" where
  "parseInt s = foldl (\<lambda>n c. 10 * n + digitVal c) 0 s"

text \<open>
  \<^verbatim>\<open>s.split('\n')\<close>: the pieces between line feeds; the empty string gives one
  empty piece.
\<close>

fun split_nl :: "jsstring \<Rightarrow> jsstring list" where
  "split_nl [] = [[]]"
| "split_nl (c # cs) =
     (if c = 0x0A then [] # split_nl cs
      else (case split_nl cs of
              [] \<Rightarrow> [[c]]
            | l # ls \<Rightarrow> (c # l) # ls))"

subsection \<open>The two regular expressions of the parser\<close>

text \<open>A literal code unit at the head of the input; the result is the rest.\<close>

fun lit :: "jschar \<Rightarrow> jsstring \<Rightarrow> jsstring option" where
  "lit c [] = None"
| "lit c (x # xs) = (if x = c then Some xs else None)"

text \<open>\<^verbatim>\<open>(\d{n})\<close>: exactly \<open>n\<close> digits; the result is the group and the rest.\<close>

fun digitsN :: "nat \<Rightarrow> jsstring \<Rightarrow> (jsstring \<times> jsstring) option" where
  "digitsN 0 s = Some ([], s)"
| "digitsN (Suc n) [] = None"
| "digitsN (Suc n) (c # cs) =
     (if isDigit c
      then (case digitsN n cs of None \<Rightarrow> None | Some (g, r) \<Rightarrow> Some (c # g, r))
      else None)"

text \<open>
  \<^verbatim>\<open>(\d{2,3})\]\<close>: the quantifier is greedy, so three digits are tried first and
  two digits are the fallback when the bracket does not follow.
\<close>

definition fractionClose :: "jsstring \<Rightarrow> (jsstring \<times> jsstring) option" where
  "fractionClose s =
     (case do { (g, r) \<leftarrow> digitsN 3 s; r' \<leftarrow> lit 0x5D r; Some (g, r') } of
        Some x \<Rightarrow> Some x
      | None \<Rightarrow> do { (g, r) \<leftarrow> digitsN 2 s; r' \<leftarrow> lit 0x5D r; Some (g, r') })"

text \<open>
  \<^verbatim>\<open>\[(\d{2}):(\d{2})\.(\d{2,3})\]\<close> at the head of the input: groups 1 to 3 and
  the rest after the closing bracket.
\<close>

definition timeTag :: "jsstring \<Rightarrow> (jsstring \<times> jsstring \<times> jsstring \<times> jsstring) option" where
  "timeTag s = do {
     r0 \<leftarrow> lit 0x5B s;
     (g1, r1) \<leftarrow> digitsN 2 r0;
     r2 \<leftarrow> lit 0x3A r1;
     (g2, r3) \<leftarrow> digitsN 2 r2;
     r4 \<leftarrow> lit 0x2E r3;
     (g3, r5) \<leftarrow> fractionClose r4;
     Some (g1, g2, g3, r5)
   }"

text \<open>
  \<^verbatim>\<open>line.match(/\[(\d{2}):(\d{2})\.(\d{2,3})\](.*)/)\<close>: the pattern is not anchored,
  so the match is the one at the leftmost position where the tag matches; group 4
  is the longest run of code units after the tag that holds no line terminator.
\<close>

fun timeMatch :: "jsstring \<Rightarrow> (jsstring \<times> jsstring \<times> jsstring \<times> jsstring) option" where
  "timeMatch [] = None"
| "timeMatch (c # cs) =
     (case timeTag (c # cs) of
        Some (g1, g2, g3, r) \<Rightarrow> Some (g1, g2, g3, takeWhile (\<lambda>x. \<not> isLineTerminator x) r)
      | None \<Rightarrow> timeMatch cs)"

text \<open>
  \<^verbatim>\<open>\[(\w+):(.*)\]\<close> at the head of the input. The key is the longest run of word
  characters (a shorter one could not be followed by the colon, which is no word
  character); the value runs up to the last closing bracket before the first
  line terminator.
\<close>

definition metaTag :: "jsstring \<Rightarrow> (jsstring \<times> jsstring) option" where
  "metaTag s = do {
     r0 \<leftarrow> lit 0x5B s;
     let key = takeWhile isWordChar r0;
     r1 \<leftarrow> (if key = [] then None else lit 0x3A (dropWhile isWordChar r0));
     let dots = takeWhile (\<lambda>x. \<not> isLineTerminator x) r1;
     let back = dropWhile (\<lambda>x. x \<noteq> 0x5D) (rev dots);
     (if back = [] then None else Some (key, rev (tl back)))
   }"

fun metaMatch :: "jsstring \<Rightarrow> (jsstring \<times> jsstring) option" where
  "metaMatch [] = None"
| "metaMatch (c # cs) =
     (case metaTag (c # cs) of Some m \<Rightarrow> Some m | None \<Rightarrow> metaMatch cs)"

subsection \<open>LRCParser.parse\<close>

record cue =
  time :: real
  "text" :: jsstring

text \<open>
  The object \<^verbatim>\<open>metadata\<close> is kept as the list of the assignments
  \<^verbatim>\<open>metadata[key] = value\<close> in the order the loop makes them.
\<close>

record parsed =
  lyrics :: "cue list"
  metadata :: "(jsstring \<times> jsstring) list"

text \<open>One turn of the loop over the lines.\<close>

definition parse_line :: "jsstring \<Rightarrow> cue list \<times> (jsstring \<times> jsstring) list
    \<Rightarrow> cue list \<times> (jsstring \<times> jsstring) list" where
  "parse_line line acc =
     (case timeMatch line of
        Some (g1, g2, g3, g4) \<Rightarrow>
          (let minutes = parseInt g1;
               seconds = parseInt g2;
               milliseconds = parseInt (padEnd 3 0x30 g3);
               txt = trim g4;
               timeInSeconds = real minutes * 60 + real seconds + real milliseconds / 1000
           in (fst acc @ [\<lparr>time = timeInSeconds, text = txt\<rparr>], snd acc))
      | None \<Rightarrow>
          (case metaMatch line of
             Some (k, v) \<Rightarrow> (fst acc, snd acc @ [(k, v)])
           | None \<Rightarrow> acc))"

definition parse_lines :: "jsstring list \<Rightarrow> cue list \<times> (jsstring \<times> jsstring) list" where
  "parse_lines ls = foldl (\<lambda>acc line. parse_line line acc) ([], []) ls"

text \<open>The comparison function handed to \<^verbatim>\<open>sort\<close>.\<close>

definition compareFn :: "cue \<Rightarrow> cue \<Rightarrow> real" where
  "compareFn a b = time a - time b"

text \<open>
  \<^verbatim>\<open>Array.prototype.sort\<close> is the host's: a stable comparison sort (ECMAScript 2019).
  It is modelled by the stable insertion sort driven by the comparison function;
  with a consistent comparison every stable sort returns the same list.
\<close>

fun insert_by :: "('a \<Rightarrow> 'a \<Rightarrow> real) \<Rightarrow> 'a \<Rightarrow> 'a list \<Rightarrow> 'a list" where
  "insert_by cmp x [] = [x]"
| "insert_by cmp x (y # ys) =
     (if cmp x y \<le> 0 then x # y # ys else y # insert_by cmp x ys)"

definition js_sort :: "('a \<Rightarrow> 'a \<Rightarrow> real) \<Rightarrow> 'a list \<Rightarrow> 'a list" where
  "js_sort cmp xs = foldr (insert_by cmp) xs []"

definition parse :: "jsstring \<Rightarrow> parsed" where
  "parse lrcContent =
     (let ls = split_nl lrcContent;
          acc = parse_lines ls
      in \<lparr>lyrics = js_sort compareFn (fst acc), metadata = snd acc\<rparr>)"

subsection \<open>The media element\<close>

text \<open>
  The \<^verbatim>\<open>Audio\<close> element is the host's. The model keeps the four attributes the
  source reads or writes. An assignment to \<^verbatim>\<open>volume\<close> stores the assigned value;
  \<^verbatim>\<open>play()\<close> and \<^verbatim>\<open>pause()\<close> clear and set \<^verbatim>\<open>paused\<close>. Playback itself (the
  position advancing with time) is not part of the model.
\<close>

record audio_el =
  currentTime :: real
  duration :: real
  volume :: real
  paused :: bool

text \<open>
  \<^verbatim>\<open>new Audio(url)\<close>: a paused element at position 0 with full volume; \<open>d\<close> is the
  duration of the resource behind the URL.
\<close>

definition new_Audio :: "real \<Rightarrow> audio_el" where
  "new_Audio d = \<lparr>currentTime = 0, duration = d, volume = 1, paused = True\<rparr>"

text \<open>
  An assignment \<^verbatim>\<open>audio.currentTime = t\<close> is a seek. The element limits the
  requested time to the range of its media, a time past the end becoming the
  duration and a time before the start becoming 0, and the limited time is the
  position it reports from then on.
\<close>

definition setCurrentTime :: "audio_el \<Rightarrow> real \<Rightarrow> audio_el" where
  "setCurrentTime a t = a\<lparr>currentTime := max 0 (min (duration a) t)\<rparr>"

subsection \<open>LyricsPlayerApp\<close>

text \<open>
  The fields of the class. \<open>updateInterval\<close> is the handle of the live interval
  timer, given by its period in milliseconds. \<open>renderLyricsCalls\<close> is not a field of
  the source: it counts the calls of \<^verbatim>\<open>_renderLyrics\<close>, whose only effect is on the
  page. The calls of \<^verbatim>\<open>render\<close>, \<^verbatim>\<open>_saveState\<close> and of the \<^verbatim>\<open>_broadcast...\<close>
  methods change no field and are left out.
\<close>

record player =
  audio :: "audio_el option"
  lyrics :: "cue list"
  currentLyricIndex :: int
  isPlaying :: bool
  updateInterval :: "nat option"
  audioFile :: "jsstring option"
  lrcFile :: "jsstring option"
  renderLyricsCalls :: nat

text \<open>The constructor.\<close>

definition LyricsPlayerApp :: player where
  "LyricsPlayerApp =
     \<lparr>audio = None, lyrics = [], currentLyricIndex = 0, isPlaying = False,
      updateInterval = None, audioFile = None, lrcFile = None, renderLyricsCalls = 0\<rparr>"

definition stopUpdate :: "player \<Rightarrow> player" where
  "stopUpdate p =
     (case updateInterval p of
        Some h \<Rightarrow> p\<lparr>updateInterval := None\<rparr>
      | None \<Rightarrow> p)"

definition startUpdate :: "player \<Rightarrow> player" where
  "startUpdate p = (stopUpdate p)\<lparr>updateInterval := Some 100\<rparr>"

definition renderLyrics :: "player \<Rightarrow> player" where
  "renderLyrics p = p\<lparr>renderLyricsCalls := Suc (renderLyricsCalls p)\<rparr>"

text \<open>
  The loop \<^verbatim>\<open>for (let i = this.lyrics.length - 1; i >= 0; i--)\<close> of
  \<^verbatim>\<open>_updateLyrics\<close>: \<open>scanDown ls t k\<close> runs it from \<open>i = k - 1\<close> and returns the
  value of \<^verbatim>\<open>currentIndex\<close> after the loop, which starts as \<open>-1\<close>.
\<close>

fun scanDown :: "cue list \<Rightarrow> real \<Rightarrow> nat \<Rightarrow> int" where
  "scanDown ls t 0 = - 1"
| "scanDown ls t (Suc i) = (if time (ls ! i) \<le> t then int i else scanDown ls t i)"

definition findCurrentIndex :: "cue list \<Rightarrow> real \<Rightarrow> int" where
  "findCurrentIndex ls t = scanDown ls t (length ls)"

definition updateLyrics :: "player \<Rightarrow> player" where
  "updateLyrics p =
     (case audio p of
        None \<Rightarrow> p
      | Some a \<Rightarrow>
          if lyrics p = [] then p
          else
            (let currentIndex = findCurrentIndex (lyrics p) (currentTime a)
             in if currentIndex \<noteq> currentLyricIndex p
                then renderLyrics (p\<lparr>currentLyricIndex := currentIndex\<rparr>)
                else p))"

text \<open>The callback of the interval timer; \<^verbatim>\<open>_updateProgressBar\<close> only writes to the page.\<close>

definition tick :: "player \<Rightarrow> player" where
  "tick p = updateLyrics p"

definition play :: "player \<Rightarrow> player" where
  "play p =
     (case audio p of
        None \<Rightarrow> p
      | Some a \<Rightarrow> startUpdate (p\<lparr>audio := Some (a\<lparr>paused := False\<rparr>), isPlaying := True\<rparr>))"

definition pause :: "player \<Rightarrow> player" where
  "pause p =
     (case audio p of
        None \<Rightarrow> p
      | Some a \<Rightarrow> stopUpdate (p\<lparr>audio := Some (a\<lparr>paused := True\<rparr>), isPlaying := False\<rparr>))"

definition onPlayPause :: "player \<Rightarrow> player" where
  "onPlayPause p =
     (case audio p of
        None \<Rightarrow> p
      | Some a \<Rightarrow> if isPlaying p then pause p else play p)"

definition onVolumeChange :: "player \<Rightarrow> real \<Rightarrow> player" where
  "onVolumeChange p v =
     (case audio p of
        None \<Rightarrow> p
      | Some a \<Rightarrow> p\<lparr>audio := Some (a\<lparr>volume := v\<rparr>)\<rparr>)"


text \<open>
  \<^verbatim>\<open>_loadAudioFile\<close>, taken in one step: the element in use is paused and dropped,
  and a new element takes its place. \<open>d\<close> is the duration of the file.
\<close>

definition loadAudioFile :: "player \<Rightarrow> real \<Rightarrow> player" where
  "loadAudioFile p d =
     (let p1 = (case audio p of
                  Some a \<Rightarrow> (p\<lparr>audio := Some (a\<lparr>paused := True\<rparr>)\<rparr>)\<lparr>audio := None\<rparr>
                | None \<Rightarrow> p)
      in p1\<lparr>audio := Some (new_Audio d)\<rparr>)"

text \<open>The listener of the event \<^verbatim>\<open>ended\<close> that \<^verbatim>\<open>_loadAudioFile\<close> installs.\<close>

definition onEnded :: "player \<Rightarrow> player" where
  "onEnded p = stopUpdate (p\<lparr>isPlaying := False\<rparr>)"

definition loadLrcFile :: "player \<Rightarrow> jsstring \<Rightarrow> player" where
  "loadLrcFile p txt = p\<lparr>lyrics := parsed.lyrics (parse txt)\<rparr>"

definition close :: "player \<Rightarrow> player" where
  "close p =
     (let p1 = stopUpdate p
      in case audio p1 of
           Some a \<Rightarrow> p1\<lparr>audio := Some (a\<lparr>paused := True\<rparr>)\<rparr>
         | None \<Rightarrow> p1)"

subsection \<open>handleSocketMessage\<close>

text \<open>
  The messages by their field \<^verbatim>\<open>type\<close>: \<open>LoadAudio d fileName\<close> (the bytes are given
  by the duration \<open>d\<close> of the audio they hold), \<open>LoadLrc content fileName\<close>,
  \<open>PlayerState isPlaying currentTime volume\<close>, and any other type.
\<close>

datatype message =
    LoadAudio real jsstring
  | LoadLrc jsstring jsstring
  | PlayerState bool real real
  | OtherType

text \<open>
  The first argument is the global \<^verbatim>\<open>game.lyricsPlayer\<close>, which the handler creates
  when it is missing; the result is that player after the message.
\<close>

definition handleSocketMessage :: "player option \<Rightarrow> message \<Rightarrow> player" where
  "handleSocketMessage g data =
     (let player = (case g of None \<Rightarrow> LyricsPlayerApp | Some p \<Rightarrow> p)
      in case data of
           LoadAudio d fileName \<Rightarrow>
             (let p1 = (case audio player of
                          Some a \<Rightarrow> player\<lparr>audio := Some (a\<lparr>paused := True\<rparr>)\<rparr>
                        | None \<Rightarrow> player)
              in p1\<lparr>audio := Some (new_Audio d), audioFile := Some fileName\<rparr>)
         | LoadLrc content fileName \<Rightarrow>
             player\<lparr>lyrics := parsed.lyrics (parse content), lrcFile := Some fileName\<rparr>
         | PlayerState dataPlaying dataTime dataVolume \<Rightarrow>
             (case audio player of
                None \<Rightarrow> player
              | Some a \<Rightarrow>
                  (let a1 = (if \<bar>currentTime a - dataTime\<bar> > 1
                             then setCurrentTime a dataTime else a);
                       a2 = a1\<lparr>volume := dataVolume\<rparr>
                   in if dataPlaying \<and> paused a2
                      then startUpdate
                             (player\<lparr>audio := Some (a2\<lparr>paused := False\<rparr>), isPlaying := True\<rparr>)
                      else if \<not> dataPlaying \<and> \<not> paused a2
                      then stopUpdate
                             (player\<lparr>audio := Some (a2\<lparr>paused := True\<rparr>), isPlaying := False\<rparr>)
                      else player\<lparr>audio := Some a2\<rparr>))
         | OtherType \<Rightarrow> player)"

subsection \<open>Notions of the specification and sample data\<close>

text \<open>The three cues of the specification's boundary example.\<close>

definition cues_ABC :: "cue list" where
  "cues_ABC =
     [\<lparr>time = 0, text = js ''A''\<rparr>, \<lparr>time = 5, text = js ''B''\<rparr>, \<lparr>time = 10, text = js ''C''\<rparr>]"

text \<open>The invariant of the data model: the stored index is \<open>-1\<close> or an index of the cue list.\<close>

definition indexValid :: "player \<Rightarrow> bool" where
  "indexValid p \<longleftrightarrow>
     currentLyricIndex p = - 1 \<or>
     (0 \<le> currentLyricIndex p \<and> currentLyricIndex p < int (length (lyrics p)))"


text \<open>An evaluation of the cue tracker re-renders when it calls \<^verbatim>\<open>_renderLyrics\<close>.\<close>

definition rerendered :: "player \<Rightarrow> bool" where
  "rerendered p \<longleftrightarrow> renderLyricsCalls (updateLyrics p) \<noteq> renderLyricsCalls p"

text \<open>A receiving peer with a paused audio of 200 seconds that was sought to \<open>t\<close>.\<close>

definition peer_at :: "real \<Rightarrow> player" where
  "peer_at t = LyricsPlayerApp\<lparr>audio := Some (setCurrentTime (new_Audio 200) t)\<rparr>"

text \<open>The same peer with the three sample cues loaded.\<close>

definition peer_ABC :: "real \<Rightarrow> player" where
  "peer_ABC t = (peer_at t)\<lparr>lyrics := cues_ABC\<rparr>"

text \<open>The same peer with two cues, the first at 5 seconds.\<close>

definition peer_BC :: "real \<Rightarrow> player" where
  "peer_BC t = (peer_at t)\<lparr>lyrics := [\<lparr>time = 5, text = js ''B''\<rparr>, \<lparr>time = 10, text = js ''C''\<rparr>]\<rparr>"

text \<open>A session that plays: constructed, an audio file loaded, play pressed.\<close>

definition playing_session :: player where
  "playing_session = play (loadAudioFile LyricsPlayerApp 200)"

text \<open>
  A peer that receives a lyrics document of three cues and an audio, is told to
  play at position 100, samples once, and then receives a document of one cue.
\<close>

definition lrc_three :: jsstring where
  "lrc_three = js ''[00:00.00]A'' @ [0x0A] @ js ''[00:05.00]B'' @ [0x0A] @ js ''[00:10.00]C''"

definition lrc_one :: jsstring where
  "lrc_one = js ''[00:00.00]Z''"

definition sampled_peer :: player where
  "sampled_peer =
     tick (handleSocketMessage
       (Some (handleSocketMessage
         (Some (handleSocketMessage None (LoadLrc lrc_three (js ''a.lrc''))))
         (LoadAudio 200 (js ''a.mp3''))))
       (PlayerState True 100 1))"

definition relyriced_peer :: player where
  "relyriced_peer = handleSocketMessage (Some sampled_peer) (LoadLrc lrc_one (js ''b.lrc''))"

text \<open>
  The text of a time tag with the digit groups \<open>mm\<close>, \<open>ss\<close> and \<open>ff\<close>, as the
  file format writes it: \<^verbatim>\<open>[mm:ss.ff]\<close>; the groups are well formed when they are
  two digits, two digits, and two or three digits.
\<close>

definition wfTag :: "jsstring \<Rightarrow> jsstring \<Rightarrow> jsstring \<Rightarrow> bool" where
  "wfTag mm ss ff \<longleftrightarrow>
     length mm = 2 \<and> length ss = 2 \<and> (length ff = 2 \<or> length ff = 3) \<and>
     list_all isDigit mm \<and> list_all isDigit ss \<and> list_all isDigit ff"

definition tagText :: "jsstring \<Rightarrow> jsstring \<Rightarrow> jsstring \<Rightarrow> jsstring" where
  "tagText mm ss ff = [0x5B] @ mm @ [0x3A] @ ss @ [0x2E] @ ff @ [0x5D]"

text \<open>
  The time a tag denotes: minutes times 60, plus seconds, plus the fraction read
  as milliseconds, a fraction of two digits counting in hundredths.
\<close>

definition cueTime :: "jsstring \<Rightarrow> jsstring \<Rightarrow> jsstring \<Rightarrow> real" where
  "cueTime mm ss ff =
     real (parseInt mm) * 60 + real (parseInt ss)
       + real (parseInt ff * 10 ^ (3 - length ff)) / 1000"

text \<open>The cues one line adds to the array \<^verbatim>\<open>lyrics\<close>: one turn of the loop from empty arrays.\<close>

definition cuesOfLine :: "jsstring \<Rightarrow> cue list" where
  "cuesOfLine line = fst (parse_line line ([], []))"

text \<open>Three timed lines, the first and the last with the same time.\<close>

definition lrc_ties :: jsstring where
  "lrc_ties = js ''[00:05.00]B'' @ [0x0A] @ js ''[00:01.00]A'' @ [0x0A] @ js ''[00:05.00]C''"

text \<open>A timed line with a carriage return inside its text.\<close>

definition line_CR :: jsstring where
  "line_CR = js ''[00:01.00]Hi'' @ [0x0D] @ js ''there''"

section \<open>Properties\<close>

subsection \<open>Auxiliary facts\<close>

lemma digitsN_numeral:
  "digitsN (numeral k) s =
     (case s of [] \<Rightarrow> None
      | c # cs \<Rightarrow> if isDigit c
          then (case digitsN (pred_numeral k) cs of None \<Rightarrow> None | Some (g, r) \<Rightarrow> Some (c # g, r))
          else None)"
  by (simp add: numeral_eq_Suc split: list.splits)

lemmas parse_eval =
  js_def parse_def parse_lines_def parse_line_def timeTag_def fractionClose_def isDigit_def
  metaTag_def isWordChar_def isLineTerminator_def js_sort_def parseInt_def padEnd_def
  digitVal_def trim_def isWhiteSpace_def compareFn_def digitsN_numeral

lemma stopUpdate_eq: "stopUpdate p = p\<lparr>updateInterval := None\<rparr>"
  by (simp add: stopUpdate_def split: option.splits)

lemma setCurrentTime_fields:
  "duration (setCurrentTime a t) = duration a" "volume (setCurrentTime a t) = volume a"
  "paused (setCurrentTime a t) = paused a"
  by (simp_all add: setCurrentTime_def)

lemma setCurrentTime_twice: "setCurrentTime (setCurrentTime a t) t = setCurrentTime a t"
  by (simp add: setCurrentTime_def)

lemma setCurrentTime_volume:
  "setCurrentTime (a\<lparr>volume := v\<rparr>) t = (setCurrentTime a t)\<lparr>volume := v\<rparr>"
  by (simp add: setCurrentTime_def)

lemma setCurrentTime_paused:
  "setCurrentTime (a\<lparr>paused := b\<rparr>) t = (setCurrentTime a t)\<lparr>paused := b\<rparr>"
  by (simp add: setCurrentTime_def)

lemma scanDown_range:
  "scanDown ls t k = - 1 \<or> (0 \<le> scanDown ls t k \<and> scanDown ls t k < int k)"
  by (induction k) auto

lemma scanDown_none: "scanDown ls t k = - 1 \<longleftrightarrow> (\<forall>j<k. \<not> time (ls ! j) \<le> t)"
proof (induction k)
  case 0
  show ?case by simp
next
  case (Suc k)
  show ?case
  proof (cases "time (ls ! k) \<le> t")
    case True
    then show ?thesis by auto
  next
    case False
    with Suc show ?thesis by (auto simp: less_Suc_eq)
  qed
qed

lemma scanDown_hit:
  "0 \<le> scanDown ls t k \<Longrightarrow>
     time (ls ! nat (scanDown ls t k)) \<le> t \<and>
     (\<forall>j. nat (scanDown ls t k) < j \<and> j < k \<longrightarrow> \<not> time (ls ! j) \<le> t)"
proof (induction k)
  case 0
  then show ?case by simp
next
  case (Suc k)
  show ?case
  proof (cases "time (ls ! k) \<le> t")
    case True
    then show ?thesis by auto
  next
    case False
    with Suc show ?thesis by (auto simp: less_Suc_eq)
  qed
qed

lemma sorted_before_first:
  assumes "sorted (map time ls)" "ls \<noteq> []" "t < time (hd ls)" "j < length ls"
  shows "\<not> time (ls ! j) \<le> t"
proof -
  have "time (ls ! 0) \<le> time (ls ! j)"
    using assms(1,2,4) sorted_nth_mono[of "map time ls" 0 j] by simp
  moreover have "hd ls = ls ! 0" using assms(2) by (simp add: hd_conv_nth)
  ultimately show ?thesis using assms(3) by simp
qed

lemma findCurrentIndex_ABC:
  "findCurrentIndex cues_ABC 4.999 = 0" "findCurrentIndex cues_ABC 5.0 = 1"
  "findCurrentIndex cues_ABC (- 1) = - 1" "findCurrentIndex cues_ABC 100 = 2"
  by (simp_all add: cues_ABC_def findCurrentIndex_def numeral_eq_Suc)

text \<open>The regular expression of timed lines, on the text of a tag.\<close>

lemma digitsN_append:
  "length g = n \<Longrightarrow> list_all isDigit g \<Longrightarrow> digitsN n (g @ r) = Some (g, r)"
proof (induction n arbitrary: g)
  case 0
  then show ?case by simp
next
  case (Suc n)
  then obtain c g' where g: "g = c # g'" by (cases g) auto
  with Suc show ?case by simp
qed

lemma digitsN_SomeD:
  "digitsN n s = Some (g, r) \<Longrightarrow> s = g @ r \<and> length g = n \<and> list_all isDigit g"
proof (induction n arbitrary: s g)
  case 0
  then show ?case by simp
next
  case (Suc n)
  then obtain c cs where s: "s = c # cs" by (cases s) auto
  with Suc.prems obtain g' where d: "isDigit c" "digitsN n cs = Some (g', r)" "g = c # g'"
    by (auto split: if_splits option.splits)
  from Suc.IH[OF d(2)] d s show ?case by simp
qed

lemma digitsN_not_digit:
  "length g < n \<Longrightarrow> \<not> isDigit c \<Longrightarrow> digitsN n (g @ c # r) = None"
proof (induction n arbitrary: g)
  case 0
  then show ?case by simp
next
  case (Suc n)
  then show ?case by (cases g) auto
qed

lemma lit_SomeD: "lit c s = Some r \<Longrightarrow> s = c # r"
  by (cases s) (auto split: if_splits)

lemma not_digit_bracket: "\<not> isDigit 0x5D"
  by (simp add: isDigit_def)

lemma fractionClose_tag:
  assumes "length ff = 2 \<or> length ff = 3" "list_all isDigit ff"
  shows "fractionClose (ff @ 0x5D # r) = Some (ff, r)"
proof (cases "length ff = 3")
  case True
  with assms(2) show ?thesis
    by (simp add: fractionClose_def digitsN_append)
next
  case False
  with assms(1) have l: "length ff = 2" by simp
  then have "digitsN 3 (ff @ 0x5D # r) = None"
    by (intro digitsN_not_digit) (simp_all add: not_digit_bracket)
  with l assms(2) show ?thesis
    by (simp add: fractionClose_def digitsN_append)
qed

lemma fractionClose_SomeD:
  assumes "fractionClose s = Some (g, r)"
  shows "s = g @ 0x5D # r \<and> (length g = 2 \<or> length g = 3) \<and> list_all isDigit g"
proof (cases "do { (g, r) \<leftarrow> digitsN 3 s; r' \<leftarrow> lit 0x5D r; Some (g, r') }")
  case None
  with assms have "do { (g, r) \<leftarrow> digitsN 2 s; r' \<leftarrow> lit 0x5D r; Some (g, r') } = Some (g, r)"
    by (simp add: fractionClose_def)
  then obtain r0 where "digitsN 2 s = Some (g, r0)" "lit 0x5D r0 = Some r"
    by (auto split: bind_splits)
  then show ?thesis using digitsN_SomeD lit_SomeD by fastforce
next
  case (Some x)
  with assms have "do { (g, r) \<leftarrow> digitsN 3 s; r' \<leftarrow> lit 0x5D r; Some (g, r') } = Some (g, r)"
    by (simp add: fractionClose_def)
  then obtain r0 where "digitsN 3 s = Some (g, r0)" "lit 0x5D r0 = Some r"
    by (auto split: bind_splits)
  then show ?thesis using digitsN_SomeD lit_SomeD by fastforce
qed

lemma timeTag_tagText:
  assumes "wfTag mm ss ff"
  shows "timeTag (tagText mm ss ff @ r) = Some (mm, ss, ff, r)"
  using assms
  by (simp add: wfTag_def timeTag_def tagText_def digitsN_append fractionClose_tag)

lemma timeTag_SomeD:
  assumes "timeTag s = Some (g1, g2, g3, r)"
  shows "wfTag g1 g2 g3 \<and> s = tagText g1 g2 g3 @ r"
proof -
  from assms obtain r0 r1 r2 r3 r4 where
    a: "lit 0x5B s = Some r0" and b: "digitsN 2 r0 = Some (g1, r1)" and c: "lit 0x3A r1 = Some r2"
    and d: "digitsN 2 r2 = Some (g2, r3)" and e: "lit 0x2E r3 = Some r4"
    and f: "fractionClose r4 = Some (g3, r)"
    by (auto simp: timeTag_def split: bind_splits)
  from lit_SomeD[OF a] digitsN_SomeD[OF b] lit_SomeD[OF c] digitsN_SomeD[OF d] lit_SomeD[OF e]
    fractionClose_SomeD[OF f]
  show ?thesis by (simp add: wfTag_def tagText_def)
qed

lemma timeTag_iff:
  "timeTag s = Some (g1, g2, g3, r) \<longleftrightarrow> wfTag g1 g2 g3 \<and> s = tagText g1 g2 g3 @ r"
  using timeTag_SomeD timeTag_tagText by blast

lemma timeTag_Nil: "timeTag [] = None"
  by (simp add: timeTag_def)

lemma timeMatch_leftmost:
  assumes "timeTag s = Some (g1, g2, g3, r)"
    and "\<forall>k<length pre. timeTag (drop k (pre @ s)) = None"
  shows "timeMatch (pre @ s) = Some (g1, g2, g3, takeWhile (\<lambda>x. \<not> isLineTerminator x) r)"
  using assms(2)
proof (induction pre)
  case Nil
  from assms(1) obtain c cs where "s = c # cs" by (cases s) (auto simp: timeTag_Nil)
  with assms(1) show ?case by simp
next
  case (Cons a pre)
  from Cons.prems have h: "timeTag (a # pre @ s) = None" by force
  have "\<forall>k<length pre. timeTag (drop k (pre @ s)) = None"
  proof (intro allI impI)
    fix k assume "k < length pre"
    then have "Suc k < length (a # pre)" by simp
    with Cons.prems have "timeTag (drop (Suc k) ((a # pre) @ s)) = None" by blast
    then show "timeTag (drop k (pre @ s)) = None" by simp
  qed
  with Cons.IH h show ?case by simp
qed

lemma timeMatch_exists:
  assumes "timeTag s = Some x"
  shows "\<exists>y. timeMatch (pre @ s) = Some y"
proof (induction pre)
  case Nil
  from assms obtain c cs where "s = c # cs" by (cases s) (auto simp: timeTag_Nil)
  with assms show ?case by (auto split: prod.splits)
next
  case (Cons a pre)
  then show ?case by (auto split: option.splits)
qed

lemma timeMatch_NoneD:
  "timeMatch s = None \<Longrightarrow> timeTag (drop k s) = None"
proof (induction s arbitrary: k)
  case Nil
  then show ?case by (simp add: timeTag_Nil)
next
  case (Cons a s)
  then show ?case by (cases k) (auto split: option.splits)
qed

lemma insert_by_compareFn: "insert_by compareFn x ys = insort_key time x ys"
  by (induction ys) (auto simp: compareFn_def)

lemma js_sort_compareFn: "js_sort compareFn xs = sort_key time xs"
  by (simp add: js_sort_def sort_key_def insert_by_compareFn [abs_def])

lemma parse_line_fst: "fst (parse_line l acc) = fst acc @ cuesOfLine l"
  by (simp add: parse_line_def cuesOfLine_def Let_def split: option.splits prod.splits)

lemma foldl_parse_line_fst:
  "fst (foldl (\<lambda>acc line. parse_line line acc) acc ls) = fst acc @ concat (map cuesOfLine ls)"
proof (induction ls arbitrary: acc)
  case Nil
  show ?case by simp
next
  case (Cons l ls)
  show ?case by (simp add: Cons.IH parse_line_fst)
qed

lemma parse_lines_fst: "fst (parse_lines ls) = concat (map cuesOfLine ls)"
  by (simp add: parse_lines_def foldl_parse_line_fst)

lemma lyrics_parse:
  "parsed.lyrics (parse txt) = sort_key time (concat (map cuesOfLine (split_nl txt)))"
  by (simp add: parse_def Let_def js_sort_compareFn parse_lines_fst)


lemma parseInt_snoc: "parseInt (s @ [c]) = 10 * parseInt s + digitVal c"
  by (simp add: parseInt_def)

lemma parseInt_zeros: "parseInt (s @ replicate n 0x30) = parseInt s * 10 ^ n"
proof (induction n)
  case 0
  show ?case by simp
next
  case (Suc n)
  have "parseInt (s @ replicate (Suc n) 0x30) = parseInt ((s @ replicate n 0x30) @ [0x30])"
    by (simp add: replicate_append_same)
  also have "\<dots> = 10 * parseInt (s @ replicate n 0x30) + digitVal 0x30"
    by (rule parseInt_snoc)
  also have "\<dots> = parseInt s * 10 ^ Suc n"
    by (simp add: Suc.IH digitVal_def)
  finally show ?case .
qed

lemma parseInt_padEnd: "parseInt (padEnd 3 0x30 ff) = parseInt ff * 10 ^ (3 - length ff)"
  by (simp add: padEnd_def parseInt_zeros)

lemma cuesOfLine_timeMatch:
  "timeMatch line = Some (g1, g2, g3, g4) \<Longrightarrow>
     cuesOfLine line = [\<lparr>time = cueTime g1 g2 g3, text = trim g4\<rparr>]"
  by (simp add: cuesOfLine_def parse_line_def Let_def cueTime_def parseInt_padEnd)

lemma cuesOfLine_leftmost:
  assumes "wfTag mm ss ff"
    and "line = pre @ tagText mm ss ff @ rest"
    and "\<forall>k<length pre. timeTag (drop k line) = None"
  shows "cuesOfLine line =
     [\<lparr>time = cueTime mm ss ff, text = trim (takeWhile (\<lambda>x. \<not> isLineTerminator x) rest)\<rparr>]"
proof -
  have "timeTag (tagText mm ss ff @ rest) = Some (mm, ss, ff, rest)"
    using assms(1) by (rule timeTag_tagText)
  then have "timeMatch (pre @ tagText mm ss ff @ rest)
      = Some (mm, ss, ff, takeWhile (\<lambda>x. \<not> isLineTerminator x) rest)"
    using assms(2,3) by (intro timeMatch_leftmost) simp_all
  then show ?thesis
    using assms(2) by (simp add: cuesOfLine_timeMatch)
qed

lemma cuesOfLine_exists:
  assumes "wfTag mm ss ff" and "line = pre @ tagText mm ss ff @ rest"
  shows "\<exists>c. cuesOfLine line = [c]"
proof -
  have "timeTag (tagText mm ss ff @ rest) = Some (mm, ss, ff, rest)"
    using assms(1) by (rule timeTag_tagText)
  then obtain y where "timeMatch (pre @ tagText mm ss ff @ rest) = Some y"
    using timeMatch_exists by blast
  then show ?thesis
    using assms(2) cuesOfLine_timeMatch by (cases y) auto
qed

lemma split_nl_no_LF: "0x0A \<notin> set s \<Longrightarrow> split_nl s = [s]"
  by (induction s) auto

lemma parse_one_line:
  "0x0A \<notin> set line \<Longrightarrow> cuesOfLine line = [c] \<Longrightarrow> parsed.lyrics (parse line) = [c]"
  by (simp add: lyrics_parse split_nl_no_LF)

lemma trim_trailing_space:
  assumes "\<forall>x\<in>set b. isWhiteSpace x"
  shows "trim (a @ b) = trim a"
proof (cases "\<forall>x\<in>set a. isWhiteSpace x")
  case True
  have ab: "dropWhile isWhiteSpace (a @ b) = []"
    using True assms by (auto simp: dropWhile_eq_Nil_conv)
  have a: "dropWhile isWhiteSpace a = []"
    using True by (auto simp: dropWhile_eq_Nil_conv)
  show ?thesis unfolding trim_def ab a by simp
next
  case False
  then obtain x where "x \<in> set a" "\<not> isWhiteSpace x" by blast
  then have "dropWhile isWhiteSpace (a @ b) = dropWhile isWhiteSpace a @ b"
    by (meson dropWhile_append1)
  moreover have "dropWhile isWhiteSpace (rev b @ rev (dropWhile isWhiteSpace a))
      = dropWhile isWhiteSpace (rev (dropWhile isWhiteSpace a))"
    using assms by (intro dropWhile_append2) simp
  ultimately show ?thesis by (simp add: trim_def)
qed

lemma trim_takeWhile:
  assumes "\<forall>x\<in>set (dropWhile (\<lambda>x. \<not> isLineTerminator x) rest). isWhiteSpace x"
  shows "trim (takeWhile (\<lambda>x. \<not> isLineTerminator x) rest) = trim rest"
proof -
  have "trim rest = trim (takeWhile (\<lambda>x. \<not> isLineTerminator x) rest
      @ dropWhile (\<lambda>x. \<not> isLineTerminator x) rest)"
    by simp
  also have "\<dots> = trim (takeWhile (\<lambda>x. \<not> isLineTerminator x) rest)"
    using assms by (rule trim_trailing_space)
  finally show ?thesis by simp
qed

lemmas line_eval =
  parse_eval cuesOfLine_def wfTag_def tagText_def cueTime_def

subsection \<open>The cue tracker\<close>

text \<open>What the scan computes, for every cue list and time.\<close>

lemma findCurrentIndex_largest:
  "(findCurrentIndex ls t = - 1 \<or>
      (0 \<le> findCurrentIndex ls t \<and> findCurrentIndex ls t < int (length ls)))
   \<and> (0 \<le> findCurrentIndex ls t \<longrightarrow>
        time (ls ! nat (findCurrentIndex ls t)) \<le> t \<and>
        (\<forall>j. nat (findCurrentIndex ls t) < j \<and> j < length ls \<longrightarrow> \<not> time (ls ! j) \<le> t))
   \<and> (findCurrentIndex ls t = - 1 \<longleftrightarrow> (\<forall>j<length ls. \<not> time (ls ! j) \<le> t))
   \<and> (sorted (map time ls) \<and> ls \<noteq> [] \<and> t < time (hd ls) \<longrightarrow> findCurrentIndex ls t = - 1)"
proof -
  have a: "findCurrentIndex ls t = - 1 \<or>
      (0 \<le> findCurrentIndex ls t \<and> findCurrentIndex ls t < int (length ls))"
    unfolding findCurrentIndex_def by (rule scanDown_range)
  have b: "0 \<le> findCurrentIndex ls t \<longrightarrow>
        time (ls ! nat (findCurrentIndex ls t)) \<le> t \<and>
        (\<forall>j. nat (findCurrentIndex ls t) < j \<and> j < length ls \<longrightarrow> \<not> time (ls ! j) \<le> t)"
    unfolding findCurrentIndex_def using scanDown_hit[of ls t "length ls"] by blast
  have c: "findCurrentIndex ls t = - 1 \<longleftrightarrow> (\<forall>j<length ls. \<not> time (ls ! j) \<le> t)"
    unfolding findCurrentIndex_def by (rule scanDown_none)
  have e: "sorted (map time ls) \<and> ls \<noteq> [] \<and> t < time (hd ls) \<longrightarrow> findCurrentIndex ls t = - 1"
    using c sorted_before_first[of ls t] by blast
  from a b c e show ?thesis by blast
qed

lemma updateLyrics_index:
  "audio p = Some a \<Longrightarrow> lyrics p \<noteq> [] \<Longrightarrow>
     currentLyricIndex (updateLyrics p) = findCurrentIndex (lyrics p) (currentTime a)"
  by (simp add: updateLyrics_def Let_def renderLyrics_def)

lemma updateLyrics_no_cues: "lyrics p = [] \<Longrightarrow> updateLyrics p = p"
  by (simp add: updateLyrics_def split: option.splits)

lemma peer_ABC_fields:
  "0 \<le> t \<Longrightarrow> t \<le> 200 \<Longrightarrow>
     audio (peer_ABC t) = Some ((new_Audio 200)\<lparr>currentTime := t\<rparr>)"
  "lyrics (peer_ABC t) = cues_ABC" "currentLyricIndex (peer_ABC t) = 0"
  "isPlaying (peer_ABC t) = False"
  by (simp_all add: peer_ABC_def peer_at_def setCurrentTime_def new_Audio_def LyricsPlayerApp_def)

lemma cues_ABC_not_empty: "cues_ABC \<noteq> []"
  by (simp add: cues_ABC_def)

lemma updateLyrics_ABC:
  "currentLyricIndex (updateLyrics (peer_ABC 4.999)) = 0"
  "currentLyricIndex (updateLyrics (peer_ABC 5.0)) = 1"
  "currentLyricIndex (updateLyrics (peer_ABC 100)) = 2"
proof -
  have "currentLyricIndex (updateLyrics (peer_ABC 4.999)) = findCurrentIndex cues_ABC 4.999"
    using updateLyrics_index [of "peer_ABC 4.999"] peer_ABC_fields(1) [of "4.999"]
    by (simp add: peer_ABC_fields(2) cues_ABC_not_empty)
  then show "currentLyricIndex (updateLyrics (peer_ABC 4.999)) = 0"
    by (simp only: findCurrentIndex_ABC)
  have "currentLyricIndex (updateLyrics (peer_ABC 5.0)) = findCurrentIndex cues_ABC 5.0"
    using updateLyrics_index [of "peer_ABC 5.0"] peer_ABC_fields(1) [of "5.0"]
    by (simp add: peer_ABC_fields(2) cues_ABC_not_empty)
  then show "currentLyricIndex (updateLyrics (peer_ABC 5.0)) = 1"
    by (simp only: findCurrentIndex_ABC)
  have "currentLyricIndex (updateLyrics (peer_ABC 100)) = findCurrentIndex cues_ABC 100"
    using updateLyrics_index [of "peer_ABC 100"] peer_ABC_fields(1) [of 100]
    by (simp add: peer_ABC_fields(2) cues_ABC_not_empty)
  then show "currentLyricIndex (updateLyrics (peer_ABC 100)) = 2"
    by (simp only: findCurrentIndex_ABC)
qed

lemma updateLyrics_ABC_negative:
  "currentLyricIndex (updateLyrics
     (LyricsPlayerApp\<lparr>audio := Some ((new_Audio 200)\<lparr>currentTime := - 1\<rparr>), lyrics := cues_ABC\<rparr>))
   = - 1"
proof -
  let ?p = "LyricsPlayerApp\<lparr>audio := Some ((new_Audio 200)\<lparr>currentTime := - 1\<rparr>), lyrics := cues_ABC\<rparr>"
  have "currentLyricIndex (updateLyrics ?p) =
      findCurrentIndex (lyrics ?p) (currentTime ((new_Audio 200)\<lparr>currentTime := - 1\<rparr>))"
    by (rule updateLyrics_index) (simp_all add: cues_ABC_not_empty)
  then show ?thesis by (simp add: findCurrentIndex_ABC(3))
qed

text \<open>
  C1, as it holds of the code. With an audio loaded and a cue list that is not
  empty, an evaluation of the cue tracker (\<^verbatim>\<open>_updateLyrics\<close>) stores the index its
  scan computes at the position of the audio. That index is \<open>-1\<close> or an index of
  the list; when it is an index, the cue there has a time at most the position
  and no later cue has; it is \<open>-1\<close> exactly when no cue has a time at most the
  position, so, the list being sorted as the parser leaves it, when the position
  is before the first cue. With an empty cue list the evaluation returns at once
  and changes nothing. For the cues at 0, 5 and 10 the evaluation stores 0 at
  4.999, 1 at 5.0 and 2 at 100; the scan gives \<open>-1\<close> at the time \<open>-1\<close>, and the
  evaluation stores \<open>-1\<close> for an audio taken to report that position.
\<close>

theorem cue_tracker_correct:
  "(audio p = Some a \<and> lyrics p \<noteq> [] \<longrightarrow>
      currentLyricIndex (updateLyrics p) = findCurrentIndex (lyrics p) (currentTime a)
      \<and> (currentLyricIndex (updateLyrics p) = - 1 \<or>
           (0 \<le> currentLyricIndex (updateLyrics p)
            \<and> currentLyricIndex (updateLyrics p) < int (length (lyrics p))))
      \<and> (0 \<le> currentLyricIndex (updateLyrics p) \<longrightarrow>
           time (lyrics p ! nat (currentLyricIndex (updateLyrics p))) \<le> currentTime a \<and>
           (\<forall>j. nat (currentLyricIndex (updateLyrics p)) < j \<and> j < length (lyrics p)
              \<longrightarrow> \<not> time (lyrics p ! j) \<le> currentTime a))
      \<and> (currentLyricIndex (updateLyrics p) = - 1
           \<longleftrightarrow> (\<forall>j<length (lyrics p). \<not> time (lyrics p ! j) \<le> currentTime a))
      \<and> (sorted (map time (lyrics p)) \<and> currentTime a < time (hd (lyrics p))
           \<longrightarrow> currentLyricIndex (updateLyrics p) = - 1))
   \<and> (lyrics p = [] \<longrightarrow> updateLyrics p = p)
   \<and> currentLyricIndex (updateLyrics (peer_ABC 4.999)) = 0
   \<and> currentLyricIndex (updateLyrics (peer_ABC 5.0)) = 1
   \<and> currentLyricIndex (updateLyrics (peer_ABC 100)) = 2
   \<and> findCurrentIndex cues_ABC (- 1) = - 1
   \<and> currentLyricIndex (updateLyrics
        (LyricsPlayerApp\<lparr>audio := Some ((new_Audio 200)\<lparr>currentTime := - 1\<rparr>),
           lyrics := cues_ABC\<rparr>)) = - 1"
proof -
  have g: "audio p = Some a \<and> lyrics p \<noteq> [] \<longrightarrow>
      currentLyricIndex (updateLyrics p) = findCurrentIndex (lyrics p) (currentTime a)"
    using updateLyrics_index by blast
  note f = findCurrentIndex_largest [of "lyrics p" "currentTime a"]
  have h: "audio p = Some a \<and> lyrics p \<noteq> [] \<longrightarrow>
      currentLyricIndex (updateLyrics p) = findCurrentIndex (lyrics p) (currentTime a)
      \<and> (currentLyricIndex (updateLyrics p) = - 1 \<or>
           (0 \<le> currentLyricIndex (updateLyrics p)
            \<and> currentLyricIndex (updateLyrics p) < int (length (lyrics p))))
      \<and> (0 \<le> currentLyricIndex (updateLyrics p) \<longrightarrow>
           time (lyrics p ! nat (currentLyricIndex (updateLyrics p))) \<le> currentTime a \<and>
           (\<forall>j. nat (currentLyricIndex (updateLyrics p)) < j \<and> j < length (lyrics p)
              \<longrightarrow> \<not> time (lyrics p ! j) \<le> currentTime a))
      \<and> (currentLyricIndex (updateLyrics p) = - 1
           \<longleftrightarrow> (\<forall>j<length (lyrics p). \<not> time (lyrics p ! j) \<le> currentTime a))
      \<and> (sorted (map time (lyrics p)) \<and> currentTime a < time (hd (lyrics p))
           \<longrightarrow> currentLyricIndex (updateLyrics p) = - 1)"
  proof (intro impI)
    assume "audio p = Some a \<and> lyrics p \<noteq> []"
    with g have eq: "currentLyricIndex (updateLyrics p) = findCurrentIndex (lyrics p) (currentTime a)"
      and ne: "lyrics p \<noteq> []" by blast+
    show "currentLyricIndex (updateLyrics p) = findCurrentIndex (lyrics p) (currentTime a)
      \<and> (currentLyricIndex (updateLyrics p) = - 1 \<or>
           (0 \<le> currentLyricIndex (updateLyrics p)
            \<and> currentLyricIndex (updateLyrics p) < int (length (lyrics p))))
      \<and> (0 \<le> currentLyricIndex (updateLyrics p) \<longrightarrow>
           time (lyrics p ! nat (currentLyricIndex (updateLyrics p))) \<le> currentTime a \<and>
           (\<forall>j. nat (currentLyricIndex (updateLyrics p)) < j \<and> j < length (lyrics p)
              \<longrightarrow> \<not> time (lyrics p ! j) \<le> currentTime a))
      \<and> (currentLyricIndex (updateLyrics p) = - 1
           \<longleftrightarrow> (\<forall>j<length (lyrics p). \<not> time (lyrics p ! j) \<le> currentTime a))
      \<and> (sorted (map time (lyrics p)) \<and> currentTime a < time (hd (lyrics p))
           \<longrightarrow> currentLyricIndex (updateLyrics p) = - 1)"
      unfolding eq using f ne by blast
  qed
  have n: "lyrics p = [] \<longrightarrow> updateLyrics p = p"
    using updateLyrics_no_cues by blast
  from h n updateLyrics_ABC findCurrentIndex_ABC(3) updateLyrics_ABC_negative
  show ?thesis by blast
qed

text \<open>
  The theorem at the sample peer at position 4.999: the stored index is 0, cue 0
  is due and cue 1 is not. And at the peer with cues at 5 and 10 at position 3,
  before the first cue of the sorted list: the stored index, 0 before the
  evaluation, is \<open>-1\<close> after it.
\<close>

theorem cue_tracker_correct_witness:
  "audio (peer_ABC 4.999) = Some ((new_Audio 200)\<lparr>currentTime := 4.999\<rparr>)
   \<and> lyrics (peer_ABC 4.999) \<noteq> []
   \<and> 0 \<le> currentLyricIndex (updateLyrics (peer_ABC 4.999))
   \<and> time (cues_ABC ! nat (currentLyricIndex (updateLyrics (peer_ABC 4.999)))) \<le> 4.999
   \<and> \<not> time (cues_ABC ! 1) \<le> 4.999
   \<and> audio (peer_BC 3) = Some ((new_Audio 200)\<lparr>currentTime := 3\<rparr>)
   \<and> sorted (map time (lyrics (peer_BC 3))) \<and> 3 < time (hd (lyrics (peer_BC 3)))
   \<and> currentLyricIndex (peer_BC 3) = 0
   \<and> currentLyricIndex (updateLyrics (peer_BC 3)) = - 1"
proof -
  let ?p = "peer_ABC 4.999" and ?a = "(new_Audio 200)\<lparr>currentTime := 4.999\<rparr>"
  have au: "audio ?p = Some ?a"
    by (rule peer_ABC_fields(1)) simp_all
  have ly: "lyrics ?p = cues_ABC" by (rule peer_ABC_fields(2))
  have ne: "lyrics ?p \<noteq> []" unfolding ly by (rule cues_ABC_not_empty)
  have ct: "currentTime ?a = 4.999" by simp
  have l: "length cues_ABC = 3" by (simp add: cues_ABC_def)
  from cue_tracker_correct [of ?p ?a] au ne
  have v: "currentLyricIndex (updateLyrics ?p) = 0"
    and b: "0 \<le> currentLyricIndex (updateLyrics ?p) \<longrightarrow>
           time (lyrics ?p ! nat (currentLyricIndex (updateLyrics ?p))) \<le> currentTime ?a \<and>
           (\<forall>j. nat (currentLyricIndex (updateLyrics ?p)) < j \<and> j < length (lyrics ?p)
              \<longrightarrow> \<not> time (lyrics ?p ! j) \<le> currentTime ?a)"
    by blast+
  have pos: "0 \<le> currentLyricIndex (updateLyrics ?p)" using v by simp
  from b pos have b1: "time (lyrics ?p ! nat (currentLyricIndex (updateLyrics ?p))) \<le> currentTime ?a"
    and b2: "\<forall>j. nat (currentLyricIndex (updateLyrics ?p)) < j \<and> j < length (lyrics ?p)
              \<longrightarrow> \<not> time (lyrics ?p ! j) \<le> currentTime ?a"
    by blast+
  have "nat (currentLyricIndex (updateLyrics ?p)) < 1 \<and> 1 < length (lyrics ?p)"
    using v l ly by simp
  with b2 have "\<not> time (lyrics ?p ! 1) \<le> currentTime ?a" by blast
  then have c1: "\<not> time (cues_ABC ! 1) \<le> 4.999" unfolding ly ct .
  from b1 have c0: "time (cues_ABC ! nat (currentLyricIndex (updateLyrics ?p))) \<le> 4.999"
    unfolding ly ct .
  let ?q = "peer_BC 3" and ?b = "(new_Audio 200)\<lparr>currentTime := 3\<rparr>"
  have qa: "audio ?q = Some ?b"
    by (simp add: peer_BC_def peer_at_def setCurrentTime_def new_Audio_def)
  have ql: "lyrics ?q = [\<lparr>time = 5, text = js ''B''\<rparr>, \<lparr>time = 10, text = js ''C''\<rparr>]"
    by (simp add: peer_BC_def)
  have qn: "lyrics ?q \<noteq> []" by (simp add: ql)
  have qs: "sorted (map time (lyrics ?q)) \<and> currentTime ?b < time (hd (lyrics ?q))"
    by (simp add: ql)
  have qi: "currentLyricIndex ?q = 0"
    by (simp add: peer_BC_def peer_at_def LyricsPlayerApp_def)
  from cue_tracker_correct [of ?q ?b] qa qn qs
  have qr: "currentLyricIndex (updateLyrics ?q) = - 1" by blast
  have qs': "sorted (map time (lyrics ?q)) \<and> 3 < time (hd (lyrics ?q))"
    using qs by simp
  from au ne pos c0 c1 qa qs' qi qr show ?thesis by blast
qed

text \<open>
  As the specification states it, the property fails on an empty cue list: a
  peer with an audio at position 3 and no cues has the stored index 0, and an
  evaluation of the cue tracker leaves it at 0, where the specification asks for
  \<open>-1\<close>.
\<close>

theorem empty_cue_list_counterexample:
  "audio (peer_at 3) = Some ((new_Audio 200)\<lparr>currentTime := 3\<rparr>)
   \<and> lyrics (peer_at 3) = []
   \<and> currentLyricIndex (updateLyrics (peer_at 3)) = 0
   \<and> currentLyricIndex (updateLyrics (peer_at 3)) \<noteq> - 1"
  by (simp add: peer_at_def setCurrentTime_def new_Audio_def LyricsPlayerApp_def updateLyrics_def)

subsection \<open>The handler of \<^verbatim>\<open>playerState\<close> messages\<close>

text \<open>
  C2. On a peer with an audio loaded, a \<^verbatim>\<open>playerState\<close> message makes the audio
  seek to the incoming position if that position and the local one differ by
  more than one second, and leaves the local position as it was otherwise; an
  incoming position within the range of the media is then the local position.
  The volume becomes the incoming volume in every case.
\<close>

theorem state_sync_position_and_volume:
  assumes "audio p = Some a"
  shows "\<exists>a'. audio (handleSocketMessage (Some p) (PlayerState playing pos vol)) = Some a'
           \<and> currentTime a' =
               (if 1 < \<bar>currentTime a - pos\<bar> then currentTime (setCurrentTime a pos)
                else currentTime a)
           \<and> (0 \<le> pos \<and> pos \<le> duration a \<longrightarrow>
                currentTime a' = (if 1 < \<bar>currentTime a - pos\<bar> then pos else currentTime a))
           \<and> volume a' = vol"
  using assms
  by (simp add: handleSocketMessage_def Let_def startUpdate_def stopUpdate_eq setCurrentTime_def)

text \<open>
  Local position 10.0: an incoming 10.8 leaves it at 10.0, an incoming 11.2 moves
  it to 11.2; the volume 0.3 is taken both times.
\<close>

theorem state_sync_position_and_volume_witness:
  "audio (peer_at 10) = Some ((new_Audio 200)\<lparr>currentTime := 10\<rparr>)
   \<and> (\<exists>a'. audio (handleSocketMessage (Some (peer_at 10)) (PlayerState False 10.8 0.3)) = Some a'
       \<and> currentTime a' = 10 \<and> volume a' = 0.3)
   \<and> (\<exists>a'. audio (handleSocketMessage (Some (peer_at 10)) (PlayerState False 11.2 0.3)) = Some a'
       \<and> currentTime a' = 11.2 \<and> volume a' = 0.3)"
proof -
  let ?a = "(new_Audio 200)\<lparr>currentTime := 10\<rparr>"
  have h: "audio (peer_at 10) = Some ?a"
    by (simp add: peer_at_def setCurrentTime_def new_Audio_def)
  have r1: "0 \<le> (10.8::real) \<and> 10.8 \<le> duration ?a" and r2: "0 \<le> (11.2::real) \<and> 11.2 \<le> duration ?a"
    by (simp_all add: new_Audio_def)
  have n1: "\<not> 1 < \<bar>currentTime ?a - 10.8\<bar>" and n2: "1 < \<bar>currentTime ?a - 11.2\<bar>"
    by simp_all
  from state_sync_position_and_volume [OF h, of False "10.8" "0.3"] r1
  obtain a1 where a1: "audio (handleSocketMessage (Some (peer_at 10)) (PlayerState False 10.8 0.3)) = Some a1"
    and p1: "currentTime a1 = (if 1 < \<bar>currentTime ?a - 10.8\<bar> then 10.8 else currentTime ?a)"
    and v1: "volume a1 = 0.3"
    by blast
  from p1 n1 have q1: "currentTime a1 = 10" by simp
  from state_sync_position_and_volume [OF h, of False "11.2" "0.3"] r2
  obtain a2 where a2: "audio (handleSocketMessage (Some (peer_at 10)) (PlayerState False 11.2 0.3)) = Some a2"
    and p2: "currentTime a2 = (if 1 < \<bar>currentTime ?a - 11.2\<bar> then 11.2 else currentTime ?a)"
    and v2: "volume a2 = 0.3"
    by blast
  from p2 n2 have q2: "currentTime a2 = 11.2" by (simp only: if_True)
  from h a1 q1 v1 a2 q2 v2 show ?thesis by blast
qed

text \<open>
  C5. Handling the same \<^verbatim>\<open>playerState\<close> message a second time, right after the
  first, changes nothing: the player (position, volume, paused flag, playing flag,
  interval handle and every other field) is the one the first handling left.
\<close>

theorem state_sync_idempotent:
  "handleSocketMessage (Some (handleSocketMessage g (PlayerState playing pos vol)))
       (PlayerState playing pos vol)
     = handleSocketMessage g (PlayerState playing pos vol)"
proof (cases "audio (case g of None \<Rightarrow> LyricsPlayerApp | Some p \<Rightarrow> p)")
  case None
  then show ?thesis
    by (simp add: handleSocketMessage_def)
next
  case (Some a)
  show ?thesis
  proof (cases "1 < \<bar>currentTime a - pos\<bar>")
    case True
    with Some show ?thesis
      by (simp add: handleSocketMessage_def Let_def startUpdate_def stopUpdate_eq
            setCurrentTime_fields setCurrentTime_twice setCurrentTime_volume
            setCurrentTime_paused)
  next
    case False
    with Some show ?thesis
      by (simp add: handleSocketMessage_def Let_def startUpdate_def stopUpdate_eq)
  qed
qed

subsection \<open>Loading an audio file\<close>

text \<open>
  C6. Loading an audio file into a session that plays: the new element is paused
  at position 0, but \<^verbatim>\<open>_loadAudioFile\<close> neither clears \<open>isPlaying\<close> nor stops the
  interval timer, so the session still counts as playing and still samples.
  \<^verbatim>\<open>_pause\<close> does both.
\<close>

theorem loadAudioFile_keeps_playing_flag:
  "isPlaying playing_session \<and> updateInterval playing_session = Some 100
   \<and> isPlaying (loadAudioFile playing_session 300)
   \<and> updateInterval (loadAudioFile playing_session 300) = Some 100
   \<and> audio (loadAudioFile playing_session 300) = Some (new_Audio 300)
   \<and> currentTime (new_Audio 300) = 0 \<and> paused (new_Audio 300)
   \<and> \<not> isPlaying (pause playing_session) \<and> updateInterval (pause playing_session) = None"
  by (simp add: playing_session_def loadAudioFile_def play_def pause_def startUpdate_def
        stopUpdate_eq LyricsPlayerApp_def new_Audio_def)

subsection \<open>The stored index\<close>

text \<open>
  C7. The stored index is not always \<open>-1\<close> or an index of the cue list: the
  constructor stores 0 with an empty list, and a \<^verbatim>\<open>loadLrc\<close> message replaces the
  list without touching the index, here leaving index 2 with a list of one cue.
\<close>

theorem stored_index_out_of_range:
  "currentLyricIndex LyricsPlayerApp = 0 \<and> lyrics LyricsPlayerApp = []
   \<and> \<not> indexValid LyricsPlayerApp
   \<and> indexValid sampled_peer
   \<and> currentLyricIndex relyriced_peer = 2 \<and> length (lyrics relyriced_peer) = 1
   \<and> \<not> indexValid relyriced_peer"
proof -
  have three: "parsed.lyrics (parse lrc_three) = cues_ABC"
    by (simp add: lrc_three_def cues_ABC_def parse_eval)
  have one: "parsed.lyrics (parse lrc_one) = [\<lparr>time = 0, text = js ''Z''\<rparr>]"
    by (simp add: lrc_one_def parse_eval)
  have idx: "findCurrentIndex cues_ABC 100 = 2"
    by (rule findCurrentIndex_ABC(4))
  have l: "length cues_ABC = 3" by (simp add: cues_ABC_def)
  have ne: "cues_ABC \<noteq> []" by (simp add: cues_ABC_def)
  have sp: "currentLyricIndex sampled_peer = 2 \<and> lyrics sampled_peer = cues_ABC"
    by (simp add: sampled_peer_def tick_def handleSocketMessage_def LyricsPlayerApp_def
          new_Audio_def setCurrentTime_def startUpdate_def stopUpdate_eq updateLyrics_def
          renderLyrics_def Let_def three idx ne)
  have rp: "currentLyricIndex relyriced_peer = 2 \<and> length (lyrics relyriced_peer) = 1"
    using sp by (simp add: relyriced_peer_def handleSocketMessage_def one)
  show ?thesis
    using sp rp l by (simp add: indexValid_def LyricsPlayerApp_def)
qed

subsection \<open>Seeking\<close>




subsection \<open>Re-rendering\<close>

text \<open>
  C9. An evaluation of the cue tracker calls \<^verbatim>\<open>_renderLyrics\<close> if and only if it
  computes an index (an audio is loaded and there are cues) and that index
  differs from the stored one; it then calls it once; and an evaluation that
  follows at once finds the stored index again and does not call it.
\<close>

theorem rerender_edge_triggered:
  "(rerendered p \<longleftrightarrow>
      (\<exists>a. audio p = Some a \<and> lyrics p \<noteq> []
         \<and> findCurrentIndex (lyrics p) (currentTime a) \<noteq> currentLyricIndex p))
   \<and> (rerendered p \<longrightarrow> renderLyricsCalls (updateLyrics p) = Suc (renderLyricsCalls p))
   \<and> \<not> rerendered (updateLyrics p)"
proof (cases "audio p")
  case None
  then show ?thesis
    by (simp add: rerendered_def updateLyrics_def)
next
  case (Some a)
  then show ?thesis
    by (simp add: rerendered_def updateLyrics_def Let_def renderLyrics_def)
qed

text \<open>
  The sample peer at position 6 with stored index 0: the computed index is 1, so
  the first evaluation renders, once, and the second does not.
\<close>

theorem rerender_edge_triggered_witness:
  "audio (peer_ABC 6) = Some ((new_Audio 200)\<lparr>currentTime := 6\<rparr>) \<and> lyrics (peer_ABC 6) \<noteq> []
   \<and> findCurrentIndex (lyrics (peer_ABC 6)) 6 = 1 \<and> currentLyricIndex (peer_ABC 6) = 0
   \<and> rerendered (peer_ABC 6)
   \<and> renderLyricsCalls (updateLyrics (peer_ABC 6)) = Suc (renderLyricsCalls (peer_ABC 6))
   \<and> \<not> rerendered (updateLyrics (peer_ABC 6))"
proof -
  have h: "audio (peer_ABC 6) = Some ((new_Audio 200)\<lparr>currentTime := 6\<rparr>)"
    by (rule peer_ABC_fields(1)) simp_all
  have n: "lyrics (peer_ABC 6) \<noteq> []"
    by (simp add: peer_ABC_def cues_ABC_def)
  have i: "findCurrentIndex (lyrics (peer_ABC 6)) 6 = 1"
    by (simp add: peer_ABC_def cues_ABC_def findCurrentIndex_def numeral_eq_Suc)
  have s: "currentLyricIndex (peer_ABC 6) = 0"
    by (simp add: peer_ABC_def peer_at_def LyricsPlayerApp_def)
  have "\<exists>a. audio (peer_ABC 6) = Some a \<and> lyrics (peer_ABC 6) \<noteq> []
         \<and> findCurrentIndex (lyrics (peer_ABC 6)) (currentTime a) \<noteq> currentLyricIndex (peer_ABC 6)"
    using h n i s by simp
  with rerender_edge_triggered [of "peer_ABC 6"]
  have "rerendered (peer_ABC 6)
     \<and> renderLyricsCalls (updateLyrics (peer_ABC 6)) = Suc (renderLyricsCalls (peer_ABC 6))
     \<and> \<not> rerendered (updateLyrics (peer_ABC 6))"
    by blast
  with h n i s show ?thesis by blast
qed

subsection \<open>The parser\<close>

text \<open>
  C3, as it holds of the code. A line in which the leftmost match of the timed pattern is the
  tag \<^verbatim>\<open>[mm:ss.ff]\<close>, with two digits of minutes, two of seconds and two or three
  of fraction, gives one cue, whose time is minutes times 60 plus seconds plus the
  fraction in milliseconds over 1000, a fraction of two digits being padded with
  one zero; when the line is the whole input, that cue is the parser's result.
  In particular \<^verbatim>\<open>[00:01.50]Hi\<close> gives the single cue at 1.5 seconds with text
  \<^verbatim>\<open>Hi\<close>.
\<close>

theorem timed_line_time:
  assumes "wfTag mm ss ff"
    and "line = pre @ tagText mm ss ff @ rest"
    and "\<forall>k<length pre. timeTag (drop k line) = None"
  shows "\<exists>txt. cuesOfLine line = [\<lparr>time = cueTime mm ss ff, text = txt\<rparr>]
           \<and> (0x0A \<notin> set line \<longrightarrow>
                parsed.lyrics (parse line) = [\<lparr>time = cueTime mm ss ff, text = txt\<rparr>])"
  using cuesOfLine_leftmost [OF assms] parse_one_line by blast

text \<open>
  The theorem at \<^verbatim>\<open>[00:01.50]Hi\<close> (time 1.5, and the text is \<^verbatim>\<open>Hi\<close>) and at
  \<^verbatim>\<open>la [01:02.345]x\<close>, where the tag follows three code units at which the
  pattern does not match (time 62.345).
\<close>

theorem timed_line_time_witness:
  "wfTag (js ''00'') (js ''01'') (js ''50'')
   \<and> cueTime (js ''00'') (js ''01'') (js ''50'') = 1.5
   \<and> parsed.lyrics (parse (js ''[00:01.50]Hi'')) = [\<lparr>time = 1.5, text = js ''Hi''\<rparr>]
   \<and> wfTag (js ''01'') (js ''02'') (js ''345'')
   \<and> timeTag (js ''la [01:02.345]x'') = None
   \<and> timeTag (js ''a [01:02.345]x'') = None
   \<and> timeTag (js '' [01:02.345]x'') = None
   \<and> cueTime (js ''01'') (js ''02'') (js ''345'') = 62.345
   \<and> (\<exists>txt. cuesOfLine (js ''la [01:02.345]x'') = [\<lparr>time = 62.345, text = txt\<rparr>])"
proof -
  have w1: "wfTag (js ''00'') (js ''01'') (js ''50'')"
    by (simp add: wfTag_def js_def isDigit_def)
  have l1: "js ''[00:01.50]Hi'' = [] @ tagText (js ''00'') (js ''01'') (js ''50'') @ js ''Hi''"
    by (simp add: tagText_def js_def)
  have n1: "\<forall>k<length ([]::jsstring). timeTag (drop k (js ''[00:01.50]Hi'')) = None"
    by simp
  have f1: "0x0A \<notin> set (js ''[00:01.50]Hi'')"
    by (simp add: js_def)
  have t1: "cueTime (js ''00'') (js ''01'') (js ''50'') = 1.5"
    by (simp add: cueTime_def parseInt_def digitVal_def js_def)
  have e1: "trim (js ''Hi'') = js ''Hi''"
    by (simp add: trim_def js_def isWhiteSpace_def isLineTerminator_def)
  from timed_line_time [OF w1 l1 n1] f1 t1
  have p1: "\<exists>txt. cuesOfLine (js ''[00:01.50]Hi'') = [\<lparr>time = 1.5, text = txt\<rparr>]
     \<and> parsed.lyrics (parse (js ''[00:01.50]Hi'')) = [\<lparr>time = 1.5, text = txt\<rparr>]"
    by simp
  have c1: "cuesOfLine (js ''[00:01.50]Hi'') = [\<lparr>time = 1.5, text = js ''Hi''\<rparr>]"
    by (simp add: line_eval)
  from p1 c1 have r1: "parsed.lyrics (parse (js ''[00:01.50]Hi'')) = [\<lparr>time = 1.5, text = js ''Hi''\<rparr>]"
    by auto
  have w2: "wfTag (js ''01'') (js ''02'') (js ''345'')"
    by (simp add: wfTag_def js_def isDigit_def)
  have l2: "js ''la [01:02.345]x'' = js ''la '' @ tagText (js ''01'') (js ''02'') (js ''345'') @ js ''x''"
    by (simp add: tagText_def js_def)
  have k0: "timeTag (js ''la [01:02.345]x'') = None"
    by (simp add: js_def timeTag_def)
  have k1: "timeTag (js ''a [01:02.345]x'') = None"
    by (simp add: js_def timeTag_def)
  have k2: "timeTag (js '' [01:02.345]x'') = None"
    by (simp add: js_def timeTag_def)
  have n2: "\<forall>k<length (js ''la ''). timeTag (drop k (js ''la [01:02.345]x'')) = None"
  proof (intro allI impI)
    fix k assume "k < length (js ''la '')"
    then have "k = 0 \<or> k = 1 \<or> k = 2" by (auto simp: js_def)
    then show "timeTag (drop k (js ''la [01:02.345]x'')) = None"
      using k0 k1 k2 by (auto simp: js_def)
  qed
  have t2: "cueTime (js ''01'') (js ''02'') (js ''345'') = 62.345"
    by (simp add: cueTime_def parseInt_def digitVal_def js_def)
  from timed_line_time [OF w2 l2 n2] t2
  have p2: "\<exists>txt. cuesOfLine (js ''la [01:02.345]x'') = [\<lparr>time = 62.345, text = txt\<rparr>]"
    by auto
  from w1 t1 r1 w2 k0 k1 k2 t2 p2 show ?thesis by blast
qed

text \<open>
  As the specification states it, the property fails at its own example: the fraction of \<^verbatim>\<open>[00:01.5]Hi\<close> has
  one digit, the timed pattern asks for two or three, so the line gives no cue;
  the metadata pattern matches it instead, with key \<^verbatim>\<open>00\<close> and value \<^verbatim>\<open>01.5\<close>.
\<close>

theorem one_digit_fraction_counterexample:
  "parsed.lyrics (parse (js ''[00:01.5]Hi'')) = []
   \<and> parsed.metadata (parse (js ''[00:01.5]Hi'')) = [(js ''00'', js ''01.5'')]"
  by (simp add: parse_eval)

text \<open>
  C4. For every input, the cues the parser returns are sorted by time, each cue's
  time being at most the next one's, and for every time the cues of that time
  stand in the order in which the lines of the input produced them; the result
  holds the same cues as the lines produced.
\<close>

theorem parse_sorted_stable:
  "sorted (map time (parsed.lyrics (parse txt)))
   \<and> (\<forall>i. Suc i < length (parsed.lyrics (parse txt)) \<longrightarrow>
         time (parsed.lyrics (parse txt) ! i) \<le> time (parsed.lyrics (parse txt) ! Suc i))
   \<and> (\<forall>t. filter (\<lambda>c. time c = t) (parsed.lyrics (parse txt))
          = filter (\<lambda>c. time c = t) (concat (map cuesOfLine (split_nl txt))))
   \<and> mset (parsed.lyrics (parse txt)) = mset (concat (map cuesOfLine (split_nl txt)))"
proof -
  let ?L = "parsed.lyrics (parse txt)"
  have s: "sorted (map time ?L)"
    by (simp add: lyrics_parse)
  have a: "\<forall>i. Suc i < length ?L \<longrightarrow> time (?L ! i) \<le> time (?L ! Suc i)"
  proof (intro allI impI)
    fix i assume i: "Suc i < length ?L"
    then have "map time ?L ! i \<le> map time ?L ! Suc i"
      using s by (simp add: sorted_iff_nth_Suc del: nth_map)
    with i show "time (?L ! i) \<le> time (?L ! Suc i)" by simp
  qed
  have f: "\<forall>t. filter (\<lambda>c. time c = t) ?L
          = filter (\<lambda>c. time c = t) (concat (map cuesOfLine (split_nl txt)))"
    by (simp add: lyrics_parse sort_key_stable)
  have m: "mset ?L = mset (concat (map cuesOfLine (split_nl txt)))"
    by (simp add: lyrics_parse)
  from s a f m show ?thesis by blast
qed

text \<open>
  Three lines at 5, 1 and 5 seconds: the result is in the order 1, 5, 5, and the
  two cues at 5 keep the order of their lines, \<^verbatim>\<open>B\<close> before \<^verbatim>\<open>C\<close>.
\<close>

theorem parse_sorted_stable_witness:
  "parsed.lyrics (parse lrc_ties) =
     [\<lparr>time = 1, text = js ''A''\<rparr>, \<lparr>time = 5, text = js ''B''\<rparr>, \<lparr>time = 5, text = js ''C''\<rparr>]
   \<and> concat (map cuesOfLine (split_nl lrc_ties)) =
     [\<lparr>time = 5, text = js ''B''\<rparr>, \<lparr>time = 1, text = js ''A''\<rparr>, \<lparr>time = 5, text = js ''C''\<rparr>]
   \<and> Suc 0 < length (parsed.lyrics (parse lrc_ties))
   \<and> time (parsed.lyrics (parse lrc_ties) ! 0) \<le> time (parsed.lyrics (parse lrc_ties) ! Suc 0)
   \<and> filter (\<lambda>c. time c = 5) (parsed.lyrics (parse lrc_ties))
       = filter (\<lambda>c. time c = 5) (concat (map cuesOfLine (split_nl lrc_ties)))"
proof -
  have v: "parsed.lyrics (parse lrc_ties) =
     [\<lparr>time = 1, text = js ''A''\<rparr>, \<lparr>time = 5, text = js ''B''\<rparr>, \<lparr>time = 5, text = js ''C''\<rparr>]"
    by (simp add: lrc_ties_def parse_eval)
  have u: "concat (map cuesOfLine (split_nl lrc_ties)) =
     [\<lparr>time = 5, text = js ''B''\<rparr>, \<lparr>time = 1, text = js ''A''\<rparr>, \<lparr>time = 5, text = js ''C''\<rparr>]"
    by (simp add: lrc_ties_def line_eval)
  have n: "Suc 0 < length (parsed.lyrics (parse lrc_ties))"
    by (simp add: v)
  from parse_sorted_stable [of lrc_ties]
  have a: "\<forall>i. Suc i < length (parsed.lyrics (parse lrc_ties)) \<longrightarrow>
         time (parsed.lyrics (parse lrc_ties) ! i) \<le> time (parsed.lyrics (parse lrc_ties) ! Suc i)"
    and f: "\<forall>t. filter (\<lambda>c. time c = t) (parsed.lyrics (parse lrc_ties))
          = filter (\<lambda>c. time c = t) (concat (map cuesOfLine (split_nl lrc_ties)))"
    by blast+
  from a n have "time (parsed.lyrics (parse lrc_ties) ! 0) \<le> time (parsed.lyrics (parse lrc_ties) ! Suc 0)"
    by blast
  with v u n f show ?thesis by blast
qed

text \<open>
  C10, as it holds of the code. A line that holds a well-formed tag at any position gives a
  cue; when that tag is the leftmost match of the timed pattern, the cue's time is
  the tag's and its text is what follows the tag up to the first line terminator
  (a carriage return, say), trimmed of white space; this is the trimmed rest of
  the line whenever the rest holds only white space from its first line
  terminator on.
\<close>

theorem unanchored_tag_cue:
  assumes "wfTag mm ss ff" and "line = pre @ tagText mm ss ff @ rest"
  shows "(\<exists>c. cuesOfLine line = [c])
     \<and> ((\<forall>k<length pre. timeTag (drop k line) = None) \<longrightarrow>
          cuesOfLine line =
            [\<lparr>time = cueTime mm ss ff,
              text = trim (takeWhile (\<lambda>x. \<not> isLineTerminator x) rest)\<rparr>])
     \<and> ((\<forall>x\<in>set (dropWhile (\<lambda>x. \<not> isLineTerminator x) rest). isWhiteSpace x) \<longrightarrow>
          trim (takeWhile (\<lambda>x. \<not> isLineTerminator x) rest) = trim rest)"
  using cuesOfLine_exists [OF assms] cuesOfLine_leftmost [OF assms] trim_takeWhile
  by blast

text \<open>
  The theorem at \<^verbatim>\<open>intro [00:01.00]Hi\<close>, where the tag starts at position 6: the cue
  is at 1 second with text \<^verbatim>\<open>Hi\<close>; and at a rest that ends in a carriage return.
\<close>

theorem unanchored_tag_cue_witness:
  "wfTag (js ''00'') (js ''01'') (js ''00'')
   \<and> js ''intro [00:01.00]Hi'' = js ''intro '' @ tagText (js ''00'') (js ''01'') (js ''00'') @ js ''Hi''
   \<and> cuesOfLine (js ''intro [00:01.00]Hi'') = [\<lparr>time = 1, text = js ''Hi''\<rparr>]
   \<and> parsed.lyrics (parse (js ''intro [00:01.00]Hi'')) = [\<lparr>time = 1, text = js ''Hi''\<rparr>]
   \<and> isWhiteSpace 0x0D
   \<and> trim (takeWhile (\<lambda>x. \<not> isLineTerminator x) (js ''Hi'' @ [0x0D])) = trim (js ''Hi'' @ [0x0D])"
proof -
  let ?line = "js ''intro [00:01.00]Hi''"
  have w: "wfTag (js ''00'') (js ''01'') (js ''00'')"
    by (simp add: wfTag_def js_def isDigit_def)
  have l: "?line = js ''intro '' @ tagText (js ''00'') (js ''01'') (js ''00'') @ js ''Hi''"
    by (simp add: tagText_def js_def)
  have n: "\<forall>k<length (js ''intro ''). timeTag (drop k ?line) = None"
  proof (intro allI impI)
    fix k assume "k < length (js ''intro '')"
    then have "k = 0 \<or> k = 1 \<or> k = 2 \<or> k = 3 \<or> k = 4 \<or> k = 5" by (auto simp: js_def)
    then show "timeTag (drop k ?line) = None"
      by (auto simp: js_def timeTag_def)
  qed
  have t: "cueTime (js ''00'') (js ''01'') (js ''00'') = 1"
    by (simp add: cueTime_def parseInt_def digitVal_def js_def)
  have e: "trim (takeWhile (\<lambda>x. \<not> isLineTerminator x) (js ''Hi'')) = js ''Hi''"
    by (simp add: trim_def js_def isWhiteSpace_def isLineTerminator_def)
  from unanchored_tag_cue [OF w l] n t e
  have c: "cuesOfLine ?line = [\<lparr>time = 1, text = js ''Hi''\<rparr>]"
    by simp
  have p: "parsed.lyrics (parse ?line) = [\<lparr>time = 1, text = js ''Hi''\<rparr>]"
    by (simp add: parse_eval)
  have l2: "js ''[00:01.00]Hi'' @ [0x0D] = [] @ tagText (js ''00'') (js ''01'') (js ''00'') @ (js ''Hi'' @ [0x0D])"
    by (simp add: tagText_def js_def)
  have s: "isWhiteSpace 0x0D"
    by (simp add: isWhiteSpace_def isLineTerminator_def)
  have d: "\<forall>x\<in>set (dropWhile (\<lambda>x. \<not> isLineTerminator x) (js ''Hi'' @ [0x0D])). isWhiteSpace x"
    by (simp add: js_def isWhiteSpace_def isLineTerminator_def)
  from unanchored_tag_cue [OF w l2] d
  have r: "trim (takeWhile (\<lambda>x. \<not> isLineTerminator x) (js ''Hi'' @ [0x0D])) = trim (js ''Hi'' @ [0x0D])"
    by blast
  from w l c p s r show ?thesis by blast
qed

text \<open>
  As the specification states it, the property fails for a carriage return inside
  the text: the line
  \<^verbatim>\<open>[00:01.00]Hi\<close>, CR, \<^verbatim>\<open>there\<close> gives the text \<^verbatim>\<open>Hi\<close>, while the trimmed rest of
  the line after the tag is \<^verbatim>\<open>Hi\<close>, CR, \<^verbatim>\<open>there\<close>.
\<close>

theorem interior_CR_counterexample:
  "parsed.lyrics (parse line_CR) = [\<lparr>time = 1, text = js ''Hi''\<rparr>]
   \<and> line_CR = tagText (js ''00'') (js ''01'') (js ''00'') @ js ''Hi'' @ [0x0D] @ js ''there''
   \<and> trim (js ''Hi'' @ [0x0D] @ js ''there'') = js ''Hi'' @ [0x0D] @ js ''there''
   \<and> js ''Hi'' \<noteq> js ''Hi'' @ [0x0D] @ js ''there''"
  by (simp add: line_CR_def line_eval)

end
